theory Spec2Isabelle
  imports Complex_Main "HOL-Library.AList" "HOL-Library.Word"
begin

section \<open>Python values used by the metric library\<close>

text \<open>
  The exceptions the modelled code can raise. A function that can raise returns
  \<open>error + 'a\<close>, with \<open>Inl\<close> for the exception.
\<close>

datatype error = ZeroDivisionError | ValueError | KeyError

text \<open>
  A Python \<open>float\<close>. Finite values are idealised as exact reals (no rounding, no
  overflow, no signed zero); the two infinities and NaN are explicit, because the code
  builds \<open>float('inf')\<close> itself and compares against it.
\<close>

datatype pyfloat = Fin real | PInf | NInf | NaN

fun flt :: "pyfloat \<Rightarrow> pyfloat \<Rightarrow> bool" where
  "flt (Fin x) (Fin y) = (x < y)"
| "flt (Fin x) PInf = True"
| "flt NInf (Fin y) = True"
| "flt NInf PInf = True"
| "flt _ _ = False"

fun fle :: "pyfloat \<Rightarrow> pyfloat \<Rightarrow> bool" where
  "fle (Fin x) (Fin y) = (x \<le> y)"
| "fle (Fin x) PInf = True"
| "fle NInf (Fin y) = True"
| "fle NInf PInf = True"
| "fle NInf NInf = True"
| "fle PInf PInf = True"
| "fle _ _ = False"

definition fgt :: "pyfloat \<Rightarrow> pyfloat \<Rightarrow> bool" where
  "fgt a b = flt b a"

definition fge :: "pyfloat \<Rightarrow> pyfloat \<Rightarrow> bool" where
  "fge a b = fle b a"

text \<open>Python's \<open>==\<close> on floats: NaN equals nothing, itself included.\<close>

fun feq :: "pyfloat \<Rightarrow> pyfloat \<Rightarrow> bool" where
  "feq NaN _ = False"
| "feq _ NaN = False"
| "feq a b = (a = b)"

fun fsgn :: "pyfloat \<Rightarrow> real" where
  "fsgn (Fin x) = sgn x"
| "fsgn PInf = 1"
| "fsgn NInf = - 1"
| "fsgn NaN = 0"

definition signed_inf :: "real \<Rightarrow> pyfloat" where
  "signed_inf s = (if s = 0 then NaN else if 0 < s then PInf else NInf)"

fun fadd :: "pyfloat \<Rightarrow> pyfloat \<Rightarrow> pyfloat" where
  "fadd (Fin x) (Fin y) = Fin (x + y)"
| "fadd NaN _ = NaN"
| "fadd _ NaN = NaN"
| "fadd PInf NInf = NaN"
| "fadd NInf PInf = NaN"
| "fadd PInf _ = PInf"
| "fadd _ PInf = PInf"
| "fadd NInf _ = NInf"
| "fadd _ NInf = NInf"

fun fneg :: "pyfloat \<Rightarrow> pyfloat" where
  "fneg (Fin x) = Fin (- x)"
| "fneg PInf = NInf"
| "fneg NInf = PInf"
| "fneg NaN = NaN"

definition fsub :: "pyfloat \<Rightarrow> pyfloat \<Rightarrow> pyfloat" where
  "fsub a b = fadd a (fneg b)"

fun fmul :: "pyfloat \<Rightarrow> pyfloat \<Rightarrow> pyfloat" where
  "fmul (Fin x) (Fin y) = Fin (x * y)"
| "fmul NaN _ = NaN"
| "fmul _ NaN = NaN"
| "fmul a b = signed_inf (fsgn a * fsgn b)"

text \<open>
  True division \<open>a / b\<close>. Python raises \<open>ZeroDivisionError\<close> on a zero divisor
  (where IEEE 754 would give an infinity); every other case follows IEEE 754.
\<close>

fun py_truediv :: "pyfloat \<Rightarrow> pyfloat \<Rightarrow> error + pyfloat" where
  "py_truediv a (Fin y) =
     (if y = 0 then Inl ZeroDivisionError
      else Inr (case a of
                  Fin x \<Rightarrow> Fin (x / y)
                | NaN \<Rightarrow> NaN
                | _ \<Rightarrow> signed_inf (fsgn a * sgn y)))"
| "py_truediv a NaN = Inr NaN"
| "py_truediv (Fin x) _ = Inr (Fin 0)"
| "py_truediv _ _ = Inr NaN"

text \<open>An \<open>int\<close> operand of a float operation is converted to a float first.\<close>

definition float_of_int :: "int \<Rightarrow> pyfloat" where
  "float_of_int n = Fin (of_int n)"

text \<open>
  The builtin \<open>max(a, b)\<close> keeps its first argument unless the second compares
  strictly greater; \<open>min(a, b)\<close> likewise with strictly less.
\<close>

definition py_max :: "pyfloat \<Rightarrow> pyfloat \<Rightarrow> pyfloat" where
  "py_max a b = (if fgt b a then b else a)"

definition py_min :: "pyfloat \<Rightarrow> pyfloat \<Rightarrow> pyfloat" where
  "py_min a b = (if flt b a then b else a)"

text \<open>The builtin \<open>sum\<close>: start from 0 and add the items from left to right.\<close>

definition py_sum :: "pyfloat list \<Rightarrow> pyfloat" where
  "py_sum xs = foldl fadd (Fin 0) xs"

section \<open>Valuation and lending metrics (features.py)\<close>

definition noi :: "pyfloat \<Rightarrow> pyfloat \<Rightarrow> pyfloat \<Rightarrow> pyfloat" where
  "noi rent_monthly_sum other_income_monthly opex_monthly =
     fmul (fsub (fadd rent_monthly_sum other_income_monthly) opex_monthly) (Fin 12)"

definition cap_rate :: "pyfloat \<Rightarrow> pyfloat \<Rightarrow> error + pyfloat" where
  "cap_rate noi_annual v =
     (if fle v (Fin 0) then Inr (Fin 0) else py_truediv noi_annual v)"

definition value_from_cap :: "pyfloat \<Rightarrow> pyfloat \<Rightarrow> error + pyfloat" where
  "value_from_cap noi_annual market_cap_rate =
     (if fle market_cap_rate (Fin 0) then Inr PInf
      else py_truediv noi_annual market_cap_rate)"

definition dscr :: "pyfloat \<Rightarrow> pyfloat \<Rightarrow> error + pyfloat" where
  "dscr noi_annual annual_debt_service =
     (if fle annual_debt_service (Fin 0) then Inr (Fin 0)
      else py_truediv noi_annual annual_debt_service)"

definition equity_multiple :: "pyfloat \<Rightarrow> pyfloat \<Rightarrow> error + pyfloat" where
  "equity_multiple total_distributions total_equity_invested =
     (if fle total_equity_invested (Fin 0) then Inr (Fin 0)
      else py_truediv total_distributions total_equity_invested)"

definition yield_on_cost :: "pyfloat \<Rightarrow> pyfloat \<Rightarrow> error + pyfloat" where
  "yield_on_cost stabilized_noi_annual total_project_cost =
     (if fle total_project_cost (Fin 0) then Inr (Fin 0)
      else py_truediv stabilized_noi_annual total_project_cost)"

definition ltv :: "pyfloat \<Rightarrow> pyfloat \<Rightarrow> error + pyfloat" where
  "ltv current_loan_balance property_value =
     (if fle property_value (Fin 0) then Inr (Fin 0)
      else py_truediv current_loan_balance property_value)"

definition cltv :: "pyfloat \<Rightarrow> pyfloat \<Rightarrow> error + pyfloat" where
  "cltv total_liens_balance property_value =
     (if fle property_value (Fin 0) then Inr (Fin 0)
      else py_truediv total_liens_balance property_value)"

definition dti :: "pyfloat \<Rightarrow> pyfloat \<Rightarrow> error + pyfloat" where
  "dti monthly_debt_obligations monthly_gross_income =
     (if fle monthly_gross_income (Fin 0) then Inr (Fin 0)
      else py_truediv monthly_debt_obligations monthly_gross_income)"

section \<open>Domain model (models.py)\<close>

text \<open>
  A \<open>UUID\<close> is a 128-bit value. A \<open>date\<close> is a year, a month and a day; dates
  are ordered as the triple, and \<open>(d1 - d2).days\<close> is the difference of the
  proleptic Gregorian ordinals, computed as the standard library does. A
  \<open>datetime\<close> is a date with a time of day (in microseconds).
\<close>

type_synonym uuid = "128 word"

datatype date = Date (year: int) (month: int) (day: int)

record datetime =
  date_part :: date
  micros_of_day :: nat

definition datetime_date :: "datetime \<Rightarrow> date" where
  "datetime_date t = date_part t"

definition is_leap :: "int \<Rightarrow> bool" where
  "is_leap y = (y mod 4 = 0 \<and> (y mod 100 \<noteq> 0 \<or> y mod 400 = 0))"

definition days_before_year :: "int \<Rightarrow> int" where
  "days_before_year y0 = (let y = y0 - 1 in y * 365 + y div 4 - y div 100 + y div 400)"

text \<open>A date object always has a month from 1 to 12, so the table lookup is in range.\<close>

definition days_before_month :: "int \<Rightarrow> int \<Rightarrow> int" where
  "days_before_month y m =
     [0, 31, 59, 90, 120, 151, 181, 212, 243, 273, 304, 334] ! nat (m - 1)
       + (if 2 < m \<and> is_leap y then 1 else 0)"

definition toordinal :: "date \<Rightarrow> int" where
  "toordinal d = days_before_year (year d) + days_before_month (year d) (month d) + day d"

definition days_between :: "date \<Rightarrow> date \<Rightarrow> int" where
  "days_between d1 d2 = toordinal d1 - toordinal d2"

definition date_lt :: "date \<Rightarrow> date \<Rightarrow> bool" where
  "date_lt a b =
     (year a < year b \<or> (year a = year b \<and>
        (month a < month b \<or> (month a = month b \<and> day a < day b))))"

text \<open>The builtin \<open>min\<close> over an iterable of dates; it raises on an empty one.\<close>

fun py_min_date :: "date list \<Rightarrow> error + date" where
  "py_min_date [] = Inl ValueError"
| "py_min_date (d # ds) = Inr (foldl (\<lambda>m x. if date_lt x m then x else m) d ds)"

record Parcel =
  p_id :: uuid
  muni_id :: string
  zoning :: string
  geom_wkt :: string

record Building =
  b_id :: uuid
  parcel_id :: uuid
  year_built :: int
  b_structure :: string
  floors :: int
  bua_m2 :: pyfloat

record Unit =
  u_id :: uuid
  building_id :: uuid
  use_type :: string
  nla_m2 :: pyfloat
  floor_no :: int
  bedrooms :: "int option"
  orientation :: "string option"

record Lease =
  l_id :: uuid
  unit_id :: uuid
  tenant_hash :: string
  start_date :: date
  end_date :: date
  rent_monthly :: pyfloat
  deposit :: pyfloat
  status :: string

record Meter =
  m_id :: uuid
  m_scope :: string
  m_scope_id :: uuid
  meter_type :: string
  provider_acct :: "string option"

record MeterReading =
  meter_id :: uuid
  ts :: datetime
  reading_value :: pyfloat

record Permit =
  pm_id :: uuid
  pm_scope :: string
  pm_scope_id :: uuid
  kind :: string
  permit_status :: string
  issued_on :: date
  completed_on :: "date option"
  permit_no :: string

record TitleRecord =
  t_id :: uuid
  t_scope :: string
  t_scope_id :: uuid
  owner_hash :: string
  deed_no :: string
  encumbrance :: "string \<rightharpoonup> string"
  effective_on :: date

text \<open>\<open>str.lower()\<close>, on the ASCII letters.\<close>

definition lower_char :: "char \<Rightarrow> char" where
  "lower_char c =
     (let n = (of_char c :: nat) in if 65 \<le> n \<and> n \<le> 90 then char_of (n + 32) else c)"

definition str_lower :: "string \<Rightarrow> string" where
  "str_lower s = map lower_char s"

definition building_age_years :: "date \<Rightarrow> Building \<Rightarrow> date option \<Rightarrow> int" where
  "building_age_years today b asof_arg =
     (let asof = (case asof_arg of None \<Rightarrow> today | Some d \<Rightarrow> d)
      in max 0 (year asof - year_built b))"

text \<open>The definition of models.py.\<close>

definition models_title_clean_flag_from_record :: "TitleRecord option \<Rightarrow> bool" where
  "models_title_clean_flag_from_record t_opt =
     (case t_opt of
        None \<Rightarrow> False
      | Some t \<Rightarrow>
          str_lower (case encumbrance t ''lien_status'' of None \<Rightarrow> [] | Some v \<Rightarrow> v)
            \<in> {''free'', ''released''})"

section \<open>Securitization: weighted average life (features.py)\<close>

definition years_between :: "date \<Rightarrow> date \<Rightarrow> pyfloat" where
  "years_between t0 d = Fin (of_int (days_between d t0) / 365.25)"

definition weighted_average_life :: "(date \<times> pyfloat) list \<Rightarrow> error + pyfloat" where
  "weighted_average_life items =
     (if items = [] then Inr (Fin 0)
      else let total_prin = py_sum [p. (d, p) \<leftarrow> items] in
        if fle total_prin (Fin 0) then Inr (Fin 0)
        else case py_min_date [d. (d, p) \<leftarrow> items] of
               Inl e \<Rightarrow> Inl e
             | Inr t0 \<Rightarrow>
                 py_truediv (py_sum [fmul (years_between t0 d) p. (d, p) \<leftarrow> items]) total_prin)"

section \<open>Leasing (features.py)\<close>

text \<open>\<open>a / b\<close> on two ints: a float, or \<open>ZeroDivisionError\<close>.\<close>

definition py_int_truediv :: "int \<Rightarrow> int \<Rightarrow> error + pyfloat" where
  "py_int_truediv a b = (if b = 0 then Inl ZeroDivisionError else Inr (Fin (of_int a / of_int b)))"

definition rent_roll_total :: "Lease list \<Rightarrow> pyfloat" where
  "rent_roll_total active_leases =
     py_sum [rent_monthly l. l \<leftarrow> active_leases, status l = ''active'']"

definition occupancy_rate :: "Unit list \<Rightarrow> Lease list \<Rightarrow> error + pyfloat" where
  "occupancy_rate units leases =
     (let unit_ids = set [u_id u. u \<leftarrow> units];
          occupied = set [unit_id l. l \<leftarrow> leases, status l = ''active''];
          denom = int (card unit_ids)
      in if denom = 0 then Inr (Fin 0)
         else py_int_truediv (int (card (unit_ids \<inter> occupied))) denom)"

definition avg_time_to_lease :: "int list \<Rightarrow> error + pyfloat" where
  "avg_time_to_lease lst =
     (if lst = [] then Inr (Fin 0) else py_int_truediv (sum_list lst) (int (length lst)))"

section \<open>Operations (features.py)\<close>

definition kwh_per_m2_day_from_series :: "Unit \<Rightarrow> pyfloat list \<Rightarrow> error + pyfloat" where
  "kwh_per_m2_day_from_series unit_obj vals =
     (if fle (nla_m2 unit_obj) (Fin 0) \<or> vals = [] then Inr (Fin 0)
      else case py_truediv (py_sum vals) (float_of_int (int (length vals))) of
             Inl e \<Rightarrow> Inl e
           | Inr mean \<Rightarrow> py_truediv mean (nla_m2 unit_obj))"

definition mttr :: "pyfloat \<Rightarrow> int \<Rightarrow> error + pyfloat" where
  "mttr total_repair_time_hours tickets_closed =
     (if tickets_closed \<le> 0 then Inr (Fin 0)
      else py_truediv total_repair_time_hours (float_of_int tickets_closed))"

definition opex_per_unit :: "pyfloat \<Rightarrow> int \<Rightarrow> error + pyfloat" where
  "opex_per_unit total_opex_monthly unit_count =
     (if unit_count \<le> 0 then Inr (Fin 0)
      else py_truediv total_opex_monthly (float_of_int unit_count))"

section \<open>Compliance (features.py)\<close>

definition days_since_last_occupancy :: "date \<Rightarrow> Permit option \<Rightarrow> int option" where
  "days_since_last_occupancy today perm =
     (case perm of
        None \<Rightarrow> None
      | Some pm \<Rightarrow>
          (case completed_on pm of
             None \<Rightarrow> None
           | Some c \<Rightarrow> Some (days_between today c)))"

definition title_clean_flag_from_record :: "TitleRecord option \<Rightarrow> bool" where
  "title_clean_flag_from_record t_opt =
     (case t_opt of
        None \<Rightarrow> False
      | Some t \<Rightarrow>
          str_lower (case encumbrance t ''lien_status'' of None \<Rightarrow> [] | Some v \<Rightarrow> v)
            \<in> {''free'', ''released''})"

section \<open>ESG: distance to a hazard (features.py)\<close>

definition water_intensity_m3_per_m2_year :: "pyfloat \<Rightarrow> pyfloat \<Rightarrow> error + pyfloat" where
  "water_intensity_m3_per_m2_year m3_per_year nla =
     (if fle nla (Fin 0) then Inr (Fin 0) else py_truediv m3_per_year nla)"

text \<open>The default \<open>threshold_m = 500.0\<close> is a value of the second argument.\<close>

definition simple_hazard_distance_score :: "pyfloat \<Rightarrow> pyfloat \<Rightarrow> error + pyfloat" where
  "simple_hazard_distance_score distance_m threshold_m =
     (if fge distance_m threshold_m then Inr (Fin 1)
      else case py_truediv distance_m threshold_m of
             Inl e \<Rightarrow> Inl e
           | Inr q \<Rightarrow> Inr (py_max (Fin 0) q))"

section \<open>Market, development, insurance and tenant ratios (features.py)\<close>

definition turnover_rate :: "int \<Rightarrow> int \<Rightarrow> error + pyfloat" where
  "turnover_rate leases_ended total_units =
     (if total_units \<le> 0 then Inr (Fin 0) else py_int_truediv leases_ended total_units)"

definition far :: "pyfloat \<Rightarrow> pyfloat \<Rightarrow> error + pyfloat" where
  "far gfa_m2 lot_area_m2 =
     (if fle lot_area_m2 (Fin 0) then Inr (Fin 0) else py_truediv gfa_m2 lot_area_m2)"

definition coverage_ratio :: "pyfloat \<Rightarrow> pyfloat \<Rightarrow> error + pyfloat" where
  "coverage_ratio footprint_m2 lot_area_m2 =
     (if fle lot_area_m2 (Fin 0) then Inr (Fin 0) else py_truediv footprint_m2 lot_area_m2)"

definition parking_ratio :: "int \<Rightarrow> int \<Rightarrow> error + pyfloat" where
  "parking_ratio spaces units_count =
     (if units_count \<le> 0 then Inr (Fin 0) else py_int_truediv spaces units_count)"

definition deductible_effect_expected_cost ::
  "pyfloat \<Rightarrow> pyfloat \<Rightarrow> pyfloat \<Rightarrow> error + pyfloat" where
  "deductible_effect_expected_cost expected_annual_claim_sar deductible_sar claim_count_per_year =
     (if fle claim_count_per_year (Fin 0) then Inr expected_annual_claim_sar
      else case py_truediv expected_annual_claim_sar claim_count_per_year of
             Inl e \<Rightarrow> Inl e
           | Inr expected_per_claim \<Rightarrow>
               (let reduction = fmul (py_min deductible_sar expected_per_claim) claim_count_per_year
                in Inr (py_max (Fin 0) (fsub expected_annual_claim_sar reduction))))"

definition avg_satisfaction :: "pyfloat option list \<Rightarrow> error + pyfloat" where
  "avg_satisfaction scores_1_to_5 =
     (let vals = [s. Some s \<leftarrow> scores_1_to_5]
      in if vals = [] then Inr (Fin 0)
         else py_truediv (py_sum vals) (float_of_int (int (length vals))))"

definition amenity_utilization :: "int \<Rightarrow> int \<Rightarrow> error + pyfloat" where
  "amenity_utilization used_slots total_slots =
     (if total_slots \<le> 0 then Inr (Fin 0) else py_int_truediv used_slots total_slots)"

definition cohort_churn_rate :: "int \<Rightarrow> int \<Rightarrow> error + pyfloat" where
  "cohort_churn_rate ended_leases_in_cohort cohort_size =
     (if cohort_size \<le> 0 then Inr (Fin 0)
      else py_int_truediv ended_leases_in_cohort cohort_size)"

section \<open>Portfolio: risk parity (features.py)\<close>

text \<open>
  A \<open>dict\<close> is the list of its items in insertion order, with distinct keys. A dict
  comprehension evaluates the value of each item in turn and stores it under its key
  (\<open>AList.update\<close>: a key already present keeps its place); the first exception ends it.
\<close>

fun dict_comp ::
  "('a \<Rightarrow> 'k) \<Rightarrow> ('a \<Rightarrow> error + 'v) \<Rightarrow> 'a list \<Rightarrow> ('k \<times> 'v) list \<Rightarrow> error + ('k \<times> 'v) list" where
  "dict_comp key val [] acc = Inr acc"
| "dict_comp key val (x # xs) acc =
     (case val x of
        Inl e \<Rightarrow> Inl e
      | Inr v \<Rightarrow> dict_comp key val xs (AList.update (key x) v acc))"

text \<open>\<open>d[k]\<close> raises \<open>KeyError\<close> on a missing key.\<close>

definition dict_getitem :: "('k \<times> 'v) list \<Rightarrow> 'k \<Rightarrow> error + 'v" where
  "dict_getitem d k = (case map_of d k of None \<Rightarrow> Inl KeyError | Some v \<Rightarrow> Inr v)"

text \<open>
  The weights are quotients of inverses, so they depend on whether \<open>1.0 / v\<close> or the
  total overflows. In this function a finite result whose magnitude reaches the
  overflow bound of a double (\<open>2^1024 - 2^970\<close>, from where rounding to nearest gives
  an infinity) is that infinity. Rounding below the bound is not modelled.
\<close>

definition float_overflow :: real where
  "float_overflow = 2 ^ 1024 - 2 ^ 970"

definition fin_or_inf :: "real \<Rightarrow> pyfloat" where
  "fin_or_inf x =
     (if float_overflow \<le> x then PInf else if x \<le> - float_overflow then NInf else Fin x)"

fun fadd_ovf :: "pyfloat \<Rightarrow> pyfloat \<Rightarrow> pyfloat" where
  "fadd_ovf (Fin x) (Fin y) = fin_or_inf (x + y)"
| "fadd_ovf a b = fadd a b"

fun py_truediv_ovf :: "pyfloat \<Rightarrow> pyfloat \<Rightarrow> error + pyfloat" where
  "py_truediv_ovf (Fin x) (Fin y) =
     (if y = 0 then Inl ZeroDivisionError else Inr (fin_or_inf (x / y)))"
| "py_truediv_ovf a b = py_truediv a b"

definition py_sum_ovf :: "pyfloat list \<Rightarrow> pyfloat" where
  "py_sum_ovf xs = foldl fadd_ovf (Fin 0) xs"

definition simple_risk_parity_weights ::
  "(string \<times> pyfloat) list \<Rightarrow> error + (string \<times> pyfloat) list" where
  "simple_risk_parity_weights variances =
     (case dict_comp fst
             (\<lambda>(k, v). if fle v (Fin 0) then Inr (Fin 0) else py_truediv_ovf (Fin 1) v)
             variances [] of
        Inl e \<Rightarrow> Inl e
      | Inr inv_d \<Rightarrow>
          (let total = py_sum_ovf (map snd inv_d)
           in dict_comp fst
                (\<lambda>(k, _). if feq total (Fin 0) then Inr (Fin 0)
                           else case dict_getitem inv_d k of
                                  Inl e \<Rightarrow> Inl e
                                | Inr x \<Rightarrow> py_truediv_ovf x total)
                inv_d []))"

section \<open>Islamic finance: Murabaha (features.py)\<close>

definition murabaha_equal_installments_schedule ::
  "pyfloat \<Rightarrow> pyfloat \<Rightarrow> int \<Rightarrow> error + pyfloat list" where
  "murabaha_equal_installments_schedule cost_price profit_markup months =
     (let total_price = fmul cost_price (fadd (Fin 1) profit_markup)
      in if months \<le> 0 then Inr [total_price]
         else case py_truediv total_price (float_of_int months) of
                Inl e \<Rightarrow> Inl e
              | Inr installment \<Rightarrow> Inr [installment. i \<leftarrow> [0..months - 1]])"

section \<open>Report assembler (cli.py)\<close>

text \<open>
  The data adapter (db.py) is the database's view of the world: \<open>main\<close> calls its
  fetchers and computes on what they return, so they are parameters here. Only
  \<open>fetch_unit_core\<close> raises: \<open>ValueError\<close> when the unit is not found.
\<close>

record adapter =
  fetch_unit_core :: "uuid \<Rightarrow> error + (Unit \<times> Building \<times> Parcel)"
  fetch_active_leases :: "uuid \<Rightarrow> Lease list"
  fetch_latest_permit_for_building :: "uuid \<Rightarrow> Permit option"
  fetch_latest_title :: "uuid \<Rightarrow> uuid \<Rightarrow> TitleRecord option"
  fetch_unit_meters :: "uuid \<Rightarrow> Meter list"
  fetch_readings :: "uuid \<Rightarrow> int \<Rightarrow> MeterReading list"

record args =
  arg_unit_id :: uuid
  days_back :: int
  assumed_cap_rate :: pyfloat
  loan_balance :: pyfloat

text \<open>The report, one record per section of the output document.\<close>

record parcel_out =
  out_zoning :: string
  out_muni_id :: string

record building_out =
  out_age_years :: int
  out_floors :: int
  out_bua_m2 :: pyfloat

record unit_out =
  out_use_type :: string
  out_nla_m2 :: pyfloat
  out_floor_no :: int

record leases_out =
  out_active_count :: int
  out_rent_monthly_total :: pyfloat

record valuation_out =
  out_assumed_cap_rate :: pyfloat
  out_noi_annual :: pyfloat
  out_implied_value :: pyfloat
  out_ltv_from_input_balance :: "pyfloat option"

record compliance_out =
  out_days_since_occupancy :: "int option"
  out_title_clean :: bool

record energy_out =
  out_kwh_per_m2_day :: pyfloat
  out_window_days :: int

record report =
  out_parcel :: parcel_out
  out_building :: building_out
  out_unit :: unit_out
  out_leases :: leases_out
  out_valuation :: valuation_out
  out_compliance :: compliance_out
  out_energy :: energy_out
  out_generated_on :: date

text \<open>One step of the loop that sums the readings of each calendar day.\<close>

definition by_day_add :: "(date \<times> pyfloat) list \<Rightarrow> MeterReading \<Rightarrow> (date \<times> pyfloat) list" where
  "by_day_add by_day r =
     (let d = datetime_date (ts r)
      in AList.update d
           (fadd (case map_of by_day d of None \<Rightarrow> Fin 0 | Some x \<Rightarrow> x) (reading_value r))
           by_day)"

text \<open>
  \<open>main\<close>, from the parsed arguments to the document it prints. \<open>occ_rate\<close> is
  computed (so its exception, if any, ends the run) and not printed.
\<close>

definition main :: "adapter \<Rightarrow> date \<Rightarrow> args \<Rightarrow> error + report" where
  "main db today a =
     (case fetch_unit_core db (arg_unit_id a) of
        Inl e \<Rightarrow> Inl e
      | Inr (u, b, p) \<Rightarrow>
          (let leases = fetch_active_leases db (u_id u);
               permit = fetch_latest_permit_for_building db (b_id b);
               title = fetch_latest_title db (u_id u) (p_id p);
               meters = fetch_unit_meters db (u_id u);
               elec = find (\<lambda>m. meter_type m = ''electricity'') meters;
               readings = (case elec of
                             Some m \<Rightarrow> fetch_readings db (m_id m) (days_back a)
                           | None \<Rightarrow> []);
               monthly_rent = rent_roll_total leases;
               annual_noi = noi monthly_rent (Fin 0) (Fin 0)
           in case value_from_cap annual_noi (assumed_cap_rate a) of
                Inl e \<Rightarrow> Inl e
              | Inr assumed_value \<Rightarrow>
            (case (if fgt (loan_balance a) (Fin 0)
                   then (case ltv (loan_balance a) assumed_value of
                           Inl e \<Rightarrow> Inl e
                         | Inr x \<Rightarrow> Inr (Some x))
                   else Inr None) of
                Inl e \<Rightarrow> Inl e
              | Inr current_ltv \<Rightarrow>
            (case occupancy_rate [u] leases of
                Inl e \<Rightarrow> Inl e
              | Inr occ_rate \<Rightarrow>
            (let days_since_occ = days_since_last_occupancy today permit;
                 title_ok = title_clean_flag_from_record title;
                 by_day = foldl by_day_add [] readings
             in case (if by_day \<noteq> [] then kwh_per_m2_day_from_series u (map snd by_day)
                      else Inr (Fin 0)) of
                  Inl e \<Rightarrow> Inl e
                | Inr intensity \<Rightarrow>
                    Inr \<lparr> out_parcel = \<lparr> out_zoning = zoning p, out_muni_id = muni_id p \<rparr>,
                          out_building = \<lparr> out_age_years = building_age_years today b None,
                                           out_floors = floors b, out_bua_m2 = bua_m2 b \<rparr>,
                          out_unit = \<lparr> out_use_type = use_type u, out_nla_m2 = nla_m2 u,
                                       out_floor_no = floor_no u \<rparr>,
                          out_leases = \<lparr> out_active_count = int (length leases),
                                         out_rent_monthly_total = monthly_rent \<rparr>,
                          out_valuation = \<lparr> out_assumed_cap_rate = assumed_cap_rate a,
                                            out_noi_annual = annual_noi,
                                            out_implied_value = assumed_value,
                                            out_ltv_from_input_balance = current_ltv \<rparr>,
                          out_compliance = \<lparr> out_days_since_occupancy = days_since_occ,
                                             out_title_clean = title_ok \<rparr>,
                          out_energy = \<lparr> out_kwh_per_m2_day = intensity,
                                         out_window_days = days_back a \<rparr>,
                          out_generated_on = today \<rparr>)))))"

section \<open>Notions of the specification and example records\<close>

text \<open>Concrete records, on which the theorems below are instantiated.\<close>

definition lease_a :: Lease where
  "lease_a = \<lparr> l_id = 11, unit_id = 1, tenant_hash = ''t1'', start_date = Date 2024 1 1,
      end_date = Date 2024 12 31, rent_monthly = Fin 1000, deposit = Fin 0, status = ''active'' \<rparr>"

definition lease_b :: Lease where
  "lease_b = \<lparr> l_id = 12, unit_id = 2, tenant_hash = ''t2'', start_date = Date 2020 1 1,
      end_date = Date 2020 12 31, rent_monthly = Fin 2000, deposit = Fin 0, status = ''expired'' \<rparr>"

definition unit_a :: Unit where
  "unit_a = \<lparr> u_id = 1, building_id = 5, use_type = ''residential'', nla_m2 = Fin 80,
      floor_no = 2, bedrooms = Some 2, orientation = None \<rparr>"

definition unit_b :: Unit where
  "unit_b = \<lparr> u_id = 2, building_id = 5, use_type = ''residential'', nla_m2 = Fin 60,
      floor_no = 3, bedrooms = None, orientation = None \<rparr>"

text \<open>
  The comparison the specification words as "case-insensitively": two strings are equal
  once both are lowered.
\<close>

definition eq_ignoring_case :: "string \<Rightarrow> string \<Rightarrow> bool" where
  "eq_ignoring_case s t = (str_lower s = str_lower t)"

definition title_free :: TitleRecord where
  "title_free = \<lparr> t_id = 21, t_scope = ''unit'', t_scope_id = 1, owner_hash = ''o1'',
      deed_no = ''D-1'', encumbrance = [''lien_status'' \<mapsto> ''FREE''],
      effective_on = Date 2022 5 1 \<rparr>"

definition title_liened :: TitleRecord where
  "title_liened = \<lparr> t_id = 22, t_scope = ''parcel'', t_scope_id = 9, owner_hash = ''o2'',
      deed_no = ''D-2'', encumbrance = [''lien_status'' \<mapsto> ''Mortgaged''],
      effective_on = Date 2021 5 1 \<rparr>"

definition title_no_status :: TitleRecord where
  "title_no_status = \<lparr> t_id = 23, t_scope = ''parcel'', t_scope_id = 9, owner_hash = ''o3'',
      deed_no = ''D-3'', encumbrance = Map.empty, effective_on = Date 2021 5 1 \<rparr>"




definition lease_5000 :: Lease where
  "lease_5000 = \<lparr> l_id = 13, unit_id = 1, tenant_hash = ''t3'', start_date = Date 2026 1 1,
      end_date = Date 2026 12 31, rent_monthly = Fin 5000, deposit = Fin 5000,
      status = ''active'' \<rparr>"

definition building_a :: Building where
  "building_a = \<lparr> b_id = 5, parcel_id = 9, year_built = 2010, b_structure = ''concrete'',
      floors = 4, bua_m2 = Fin 1200 \<rparr>"

definition parcel_a :: Parcel where
  "parcel_a = \<lparr> p_id = 9, muni_id = ''M-1'', zoning = ''R2'', geom_wkt = ''POLYGON EMPTY'' \<rparr>"

definition example_db :: adapter where
  "example_db = \<lparr>
     fetch_unit_core = (\<lambda>i. if i = 1 then Inr (unit_a, building_a, parcel_a) else Inl ValueError),
     fetch_active_leases = (\<lambda>i. if i = 1 then [lease_5000] else []),
     fetch_latest_permit_for_building = (\<lambda>i. None),
     fetch_latest_title = (\<lambda>i j. None),
     fetch_unit_meters = (\<lambda>i. []),
     fetch_readings = (\<lambda>i n. []) \<rparr>"

definition example_args :: args where
  "example_args = \<lparr> arg_unit_id = 1, days_back = 7, assumed_cap_rate = Fin (6 / 100),
      loan_balance = Fin 400000 \<rparr>"

section \<open>Properties\<close>

subsection \<open>Arithmetic of the float model\<close>

lemma py_truediv_no_raise:
  "b \<noteq> Fin 0 \<Longrightarrow> \<exists>q. py_truediv a b = Inr q"
  by (cases b; cases a) auto

lemma not_fle_zero_nonzero: "\<not> fle b (Fin 0) \<Longrightarrow> b \<noteq> Fin 0"
  by auto

lemma guarded_truediv: "\<not> fle b (Fin 0) \<Longrightarrow> \<exists>q. py_truediv a b = Inr q"
  by (rule py_truediv_no_raise) (rule not_fle_zero_nonzero)

lemma foldl_fadd_Fin: "foldl fadd (Fin a) (map Fin xs) = Fin (a + sum_list xs)"
  by (induction xs arbitrary: a) (simp_all add: add.assoc)

lemma py_sum_Fin: "py_sum (map Fin xs) = Fin (sum_list xs)"
  by (simp add: py_sum_def foldl_fadd_Fin)

subsection \<open>Division by zero\<close>

text \<open>
  The ratio functions that test their denominator first never raise: the guard
  \<open>d <= 0\<close> covers the zero divisor.
\<close>

lemma guarded_ratios_never_raise:
  "cap_rate a b \<noteq> Inl e" "dscr a b \<noteq> Inl e" "equity_multiple a b \<noteq> Inl e"
  "yield_on_cost a b \<noteq> Inl e" "ltv a b \<noteq> Inl e" "cltv a b \<noteq> Inl e" "dti a b \<noteq> Inl e"
  "far a b \<noteq> Inl e" "coverage_ratio a b \<noteq> Inl e" "water_intensity_m3_per_m2_year a b \<noteq> Inl e"
  "value_from_cap a b \<noteq> Inl e"
  using guarded_truediv[of b a]
  by (auto simp: cap_rate_def dscr_def equity_multiple_def yield_on_cost_def ltv_def cltv_def
      dti_def far_def coverage_ratio_def water_intensity_m3_per_m2_year_def value_from_cap_def)

lemma guarded_int_ratios_never_raise:
  "parking_ratio m n \<noteq> Inl e" "turnover_rate m n \<noteq> Inl e" "amenity_utilization m n \<noteq> Inl e"
  "cohort_churn_rate m n \<noteq> Inl e" "mttr a n \<noteq> Inl e" "opex_per_unit a n \<noteq> Inl e"
  "avg_time_to_lease ns \<noteq> Inl e"
  by (auto simp: parking_ratio_def turnover_rate_def amenity_utilization_def cohort_churn_rate_def
      mttr_def opex_per_unit_def avg_time_to_lease_def py_int_truediv_def float_of_int_def)

text \<open>
  So do the functions that return early or test for an empty list before they divide,
  and the risk-parity weights, whose second division is guarded by \<open>total == 0\<close>.
\<close>

lemma deductible_effect_expected_cost_never_raises:
  "deductible_effect_expected_cost a d n \<noteq> Inl e"
proof (cases "fle n (Fin 0)")
  case True
  then show ?thesis
    by (simp add: deductible_effect_expected_cost_def)
next
  case False
  from guarded_truediv[OF False] obtain q where "py_truediv a n = Inr q"
    by blast
  with False show ?thesis
    by (simp add: deductible_effect_expected_cost_def Let_def)
qed

lemma avg_satisfaction_never_raises: "avg_satisfaction scores \<noteq> Inl e"
proof -
  let ?vals = "[s. Some s \<leftarrow> scores]"
  show ?thesis
  proof (cases "?vals = []")
    case True
    then show ?thesis
      by (simp add: avg_satisfaction_def)
  next
    case False
    then have "float_of_int (int (length ?vals)) \<noteq> Fin 0"
      by (simp add: float_of_int_def)
    from py_truediv_no_raise[OF this] obtain q where
      "py_truediv (py_sum ?vals) (float_of_int (int (length ?vals))) = Inr q"
      by blast
    with False show ?thesis
      by (simp add: avg_satisfaction_def Let_def)
  qed
qed






text \<open>
  \<open>simple_hazard_distance_score\<close> has no such guard. It raises exactly when the
  threshold is zero and the distance does not compare at or above it.
\<close>

lemma simple_hazard_distance_score_raises_iff:
  "(simple_hazard_distance_score d t = Inl e) =
     (t = Fin 0 \<and> \<not> fge d t \<and> e = ZeroDivisionError)"
  by (cases t; cases d) (auto simp: simple_hazard_distance_score_def fge_def split: sum.splits)

text \<open>
  Claim C2: no metric function raises a division-by-zero error; in particular
  \<open>simple_hazard_distance_score\<close> never raises, also for a threshold of 0.
  The code breaks this: at distance -1 and threshold 0 the comparison
  \<open>distance_m >= threshold_m\<close> is false, and the division \<open>-1.0 / 0.0\<close> raises
  \<open>ZeroDivisionError\<close>.
\<close>

theorem simple_hazard_distance_score_zero_threshold_raises:
  "simple_hazard_distance_score (Fin (- 1)) (Fin 0) = Inl ZeroDivisionError"
  by (simp add: simple_hazard_distance_score_def fge_def)

subsection \<open>Value from a capitalisation rate\<close>

text \<open>
  Claim C3: \<open>value_from_cap(noi_annual, market_cap_rate)\<close> returns +infinity when
  \<open>market_cap_rate <= 0\<close>, and otherwise the quotient \<open>noi_annual / market_cap_rate\<close>,
  which never raises there. On finite numbers the quotient is the real one.
\<close>

theorem value_from_cap_spec:
  "(fle r (Fin 0) \<longrightarrow> value_from_cap n r = Inr PInf) \<and>
   (\<not> fle r (Fin 0) \<longrightarrow> (\<exists>q. py_truediv n r = Inr q \<and> value_from_cap n r = Inr q)) \<and>
   value_from_cap (Fin x) (Fin y) = Inr (if y \<le> 0 then PInf else Fin (x / y))"
proof -
  have "\<not> fle r (Fin 0) \<Longrightarrow> \<exists>q. py_truediv n r = Inr q"
    by (rule guarded_truediv)
  then show ?thesis
    by (auto simp: value_from_cap_def)
qed

theorem value_from_cap_spec_witness:
  "value_from_cap (Fin 60000) (Fin 0) = Inr PInf \<and>
   value_from_cap (Fin 60000) (Fin (6 / 100)) = Inr (Fin 1000000) \<and>
   value_from_cap (Fin 60000) NInf = Inr PInf"
  using value_from_cap_spec[of "Fin 0" "Fin 60000" 60000 "6 / 100"]
        value_from_cap_spec[of "NInf" "Fin 60000" 60000 "6 / 100"]
  by simp

subsection \<open>Rent roll\<close>

lemma rent_roll_generator:
  "[rent_monthly l. l \<leftarrow> ls, status l = ''active'']
     = map rent_monthly (filter (\<lambda>l. status l = ''active'') ls)"
  by (induction ls) auto

text \<open>
  Claim C4: \<open>rent_roll_total\<close> returns the sum of \<open>rent_monthly\<close> over the leases
  whose status is the string "active" (the real sum, when these rents are finite
  numbers); a lease of any other status contributes nothing; and the start and end
  dates of the leases do not matter.
\<close>

theorem rent_roll_total_spec:
  "rent_roll_total ls = py_sum (map rent_monthly (filter (\<lambda>l. status l = ''active'') ls)) \<and>
   (map rent_monthly (filter (\<lambda>l. status l = ''active'') ls) = map Fin rs \<longrightarrow>
      rent_roll_total ls = Fin (sum_list rs)) \<and>
   (status x \<noteq> ''active'' \<longrightarrow> rent_roll_total (xs @ x # ys) = rent_roll_total (xs @ ys)) \<and>
   rent_roll_total (map (\<lambda>l. l\<lparr>start_date := s l, end_date := e l\<rparr>) ls) = rent_roll_total ls"
proof -
  have a: "rent_roll_total zs = py_sum (map rent_monthly (filter (\<lambda>l. status l = ''active'') zs))"
    for zs
    by (simp add: rent_roll_total_def rent_roll_generator)
  have d: "map rent_monthly (filter (\<lambda>l. status l = ''active'')
              (map (\<lambda>l. l\<lparr>start_date := s l, end_date := e l\<rparr>) ls))
     = map rent_monthly (filter (\<lambda>l. status l = ''active'') ls)"
    by (induction ls) auto
  show ?thesis
    by (simp add: a d py_sum_Fin)
qed

theorem rent_roll_total_spec_witness:
  "rent_roll_total [lease_a, lease_b] = Fin 1000 \<and>
   rent_roll_total [lease_a, lease_b] = rent_roll_total [lease_a] \<and>
   rent_roll_total [lease_a\<lparr>start_date := Date 1999 1 1, end_date := Date 1999 2 1\<rparr>]
     = rent_roll_total [lease_a]"
proof -
  note t = rent_roll_total_spec[where ls = "[lease_a, lease_b]" and rs = "[1000]"
      and x = lease_b and xs = "[lease_a]" and ys = "[]"]
  have p: "map rent_monthly (filter (\<lambda>l. status l = ''active'') [lease_a, lease_b]) = map Fin [1000]"
    by (simp add: lease_a_def lease_b_def)
  have q: "status lease_b \<noteq> ''active''"
    by (simp add: lease_b_def)
  from t p have a: "rent_roll_total [lease_a, lease_b] = Fin (sum_list [1000])"
    by blast
  from t q have b: "rent_roll_total ([lease_a] @ lease_b # []) = rent_roll_total ([lease_a] @ [])"
    by blast
  from rent_roll_total_spec[where ls = "[lease_a]" and s = "\<lambda>_. Date 1999 1 1"
      and e = "\<lambda>_. Date 1999 2 1"]
  have c: "rent_roll_total (map (\<lambda>l. l\<lparr>start_date := Date 1999 1 1, end_date := Date 1999 2 1\<rparr>) [lease_a])
      = rent_roll_total [lease_a]"
    by blast
  show ?thesis
    using a b c by simp
qed

subsection \<open>Occupancy\<close>

lemma occupancy_sets:
  "set [u_id u. u \<leftarrow> us] = u_id ` set us"
  "set [unit_id l. l \<leftarrow> ls, status l = ''active'']
     = unit_id ` {l \<in> set ls. status l = ''active''}"
  by auto

text \<open>
  Claim C5: \<open>occupancy_rate\<close> returns 0.0 when there is no unit id, and otherwise the
  number of distinct unit ids of the unit set that are the \<open>unit_id\<close> of an active
  lease, divided by the number of distinct unit ids. It never raises.
\<close>

theorem occupancy_rate_spec:
  "occupancy_rate us ls =
     Inr (Fin (if u_id ` set us = {} then 0
               else real (card {i \<in> u_id ` set us.
                                  \<exists>l \<in> set ls. status l = ''active'' \<and> unit_id l = i})
                      / real (card (u_id ` set us))))"
proof -
  have e: "u_id ` set us \<inter> unit_id ` {l \<in> set ls. status l = ''active''}
      = {i \<in> u_id ` set us. \<exists>l \<in> set ls. status l = ''active'' \<and> unit_id l = i}"
    by force
  show ?thesis
    unfolding occupancy_rate_def occupancy_sets Let_def e
    by (auto simp: py_int_truediv_def)
qed

theorem occupancy_rate_spec_witness:
  "occupancy_rate [unit_a, unit_b] [lease_a, lease_b] = Inr (Fin (1 / 2)) \<and>
   occupancy_rate [] [lease_a] = Inr (Fin 0)"
proof -
  have n: "u_id ` set [unit_a, unit_b] = {1, 2}"
    by (simp add: unit_a_def unit_b_def)
  have h: "{i \<in> {1, 2 :: uuid}.
              \<exists>l \<in> set [lease_a, lease_b]. status l = ''active'' \<and> unit_id l = i} = {1}"
    by (auto simp: lease_a_def lease_b_def)
  have a: "occupancy_rate [unit_a, unit_b] [lease_a, lease_b] = Inr (Fin (1 / 2))"
    unfolding occupancy_rate_spec[of "[unit_a, unit_b]" "[lease_a, lease_b]"] n h by simp
  have b: "occupancy_rate [] [lease_a] = Inr (Fin 0)"
    unfolding occupancy_rate_spec[of "[]" "[lease_a]"] by simp
  show ?thesis
    using a b by (rule conjI)
qed

subsection \<open>Title records\<close>

lemma str_lower_literals:
  "str_lower ''free'' = ''free''" "str_lower ''released'' = ''released''"
  "str_lower [] = []"
  by (simp_all add: str_lower_def lower_char_def)

text \<open>
  Claim C10: both definitions of \<open>title_clean_flag_from_record\<close> (models.py and
  features.py) return False on an absent record; on a present record they return True
  exactly when the encumbrance has a \<open>lien_status\<close> that equals "free" or "released"
  ignoring case; a missing \<open>lien_status\<close> key gives False.
\<close>

theorem title_clean_flag_from_record_spec:
  "\<not> title_clean_flag_from_record None \<and>
   \<not> models_title_clean_flag_from_record None \<and>
   title_clean_flag_from_record (Some t) =
     (\<exists>v. encumbrance t ''lien_status'' = Some v \<and>
          (eq_ignoring_case v ''free'' \<or> eq_ignoring_case v ''released'')) \<and>
   models_title_clean_flag_from_record (Some t) = title_clean_flag_from_record (Some t) \<and>
   (encumbrance t ''lien_status'' = None \<longrightarrow> \<not> title_clean_flag_from_record (Some t))"
  by (auto simp: title_clean_flag_from_record_def models_title_clean_flag_from_record_def
      eq_ignoring_case_def str_lower_literals split: option.splits)

theorem title_clean_flag_from_record_spec_witness:
  "title_clean_flag_from_record (Some title_free) \<and>
   models_title_clean_flag_from_record (Some title_free) \<and>
   \<not> title_clean_flag_from_record (Some title_liened) \<and>
   \<not> title_clean_flag_from_record (Some title_no_status)"
proof -
  have f: "encumbrance title_free ''lien_status'' = Some ''FREE''"
    by (simp add: title_free_def)
  have l: "encumbrance title_liened ''lien_status'' = Some ''Mortgaged''"
    by (simp add: title_liened_def)
  have n: "encumbrance title_no_status ''lien_status'' = None"
    by (simp add: title_no_status_def)
  have e: "eq_ignoring_case ''FREE'' ''free''" "\<not> eq_ignoring_case ''Mortgaged'' ''free''"
    "\<not> eq_ignoring_case ''Mortgaged'' ''released''"
    by (simp_all add: eq_ignoring_case_def str_lower_def lower_char_def char_of_def bit_Suc_0_iff)
  show ?thesis
    using title_clean_flag_from_record_spec[of title_free]
      title_clean_flag_from_record_spec[of title_liened]
      title_clean_flag_from_record_spec[of title_no_status]
    by (simp add: f l n e)
qed

subsection \<open>Murabaha schedule\<close>

lemma range_comprehension:
  "0 < m \<Longrightarrow> [c. i \<leftarrow> [0..m - 1]] = replicate (nat m) c"
  by (simp add: map_replicate_const)

lemma py_sum_replicate_Fin: "py_sum (replicate n (Fin a)) = Fin (real n * a)"
  using py_sum_Fin[of "replicate n a"] by (simp add: sum_list_replicate)

lemma fadd_zero_left: "fadd (Fin 0) v = v"
  by (cases v) simp_all

lemma foldl_fadd_absorbing: "fadd v v = v \<Longrightarrow> foldl fadd v (replicate n v) = v"
  by (induction n) simp_all

lemma py_sum_replicate_infinite:
  "fadd v v = v \<Longrightarrow> 0 < n \<Longrightarrow> py_sum (replicate n v) = v"
  by (cases n) (simp_all add: py_sum_def fadd_zero_left foldl_fadd_absorbing)

lemma py_sum_installments:
  assumes m: "0 < months" and d: "py_truediv t (float_of_int months) = Inr inst"
  shows "py_sum (replicate (nat months) inst) = t"
proof (cases t)
  case (Fin x)
  with m d have "inst = Fin (x / of_int months)"
    by (auto simp: float_of_int_def)
  with m Fin show ?thesis
    by (simp add: py_sum_replicate_Fin)
next
  case PInf
  with m d have "inst = PInf"
    by (auto simp: float_of_int_def signed_inf_def)
  with m PInf show ?thesis
    by (simp add: py_sum_replicate_infinite)
next
  case NInf
  with m d have "inst = NInf"
    by (auto simp: float_of_int_def signed_inf_def)
  with m NInf show ?thesis
    by (simp add: py_sum_replicate_infinite)
next
  case NaN
  with m d have "inst = NaN"
    by (auto simp: float_of_int_def)
  with m NaN show ?thesis
    by (simp add: py_sum_replicate_infinite)
qed

text \<open>
  Claim C7: with total price \<open>cost_price * (1 + profit_markup)\<close>,
  \<open>murabaha_equal_installments_schedule\<close> returns the one-element list of the total
  when \<open>months <= 0\<close>; otherwise it returns \<open>months\<close> installments, each the total
  divided by \<open>months\<close> (the division never raises), whose sum is the total price. On
  finite numbers each installment is the real quotient.
\<close>

theorem murabaha_equal_installments_schedule_spec:
  "(months \<le> 0 \<longrightarrow>
      murabaha_equal_installments_schedule c k months = Inr [fmul c (fadd (Fin 1) k)]) \<and>
   (0 < months \<longrightarrow>
      (\<exists>inst. py_truediv (fmul c (fadd (Fin 1) k)) (float_of_int months) = Inr inst \<and>
         murabaha_equal_installments_schedule c k months = Inr (replicate (nat months) inst) \<and>
         int (length (replicate (nat months) inst)) = months \<and>
         py_sum (replicate (nat months) inst) = fmul c (fadd (Fin 1) k))) \<and>
   (0 < months \<longrightarrow>
      murabaha_equal_installments_schedule (Fin x) (Fin y) months
        = Inr (replicate (nat months) (Fin (x * (1 + y) / of_int months))))"
proof -
  have nz: "0 < months \<Longrightarrow> float_of_int months \<noteq> Fin 0"
    by (simp add: float_of_int_def)
  have a: "\<exists>inst. py_truediv (fmul c (fadd (Fin 1) k)) (float_of_int months) = Inr inst \<and>
         murabaha_equal_installments_schedule c k months = Inr (replicate (nat months) inst) \<and>
         int (length (replicate (nat months) inst)) = months \<and>
         py_sum (replicate (nat months) inst) = fmul c (fadd (Fin 1) k)"
    if m: "0 < months"
  proof -
    from py_truediv_no_raise[OF nz[OF m]] obtain inst where
      d: "py_truediv (fmul c (fadd (Fin 1) k)) (float_of_int months) = Inr inst"
      by blast
    from m d have "murabaha_equal_installments_schedule c k months = Inr (replicate (nat months) inst)"
      by (simp add: murabaha_equal_installments_schedule_def Let_def range_comprehension
          del: upto.simps py_truediv.simps)
    moreover from m have "int (length (replicate (nat months) inst)) = months"
      by simp
    moreover note py_sum_installments[OF m d] d
    ultimately show ?thesis
      by blast
  qed
  have b: "murabaha_equal_installments_schedule (Fin x) (Fin y) months
        = Inr (replicate (nat months) (Fin (x * (1 + y) / of_int months)))"
    if m: "0 < months"
    using m by (simp add: murabaha_equal_installments_schedule_def Let_def range_comprehension
        float_of_int_def del: upto.simps)
  have z: "months \<le> 0 \<Longrightarrow>
      murabaha_equal_installments_schedule c k months = Inr [fmul c (fadd (Fin 1) k)]"
    by (simp add: murabaha_equal_installments_schedule_def Let_def)
  show ?thesis
    by (intro conjI impI) (rule z, assumption, rule a, assumption, rule b, assumption)
qed

theorem murabaha_equal_installments_schedule_spec_witness:
  "murabaha_equal_installments_schedule (Fin 100000) (Fin (1 / 10)) 12
     = Inr (replicate 12 (Fin (110000 / 12))) \<and>
   py_sum (replicate 12 (Fin (110000 / 12))) = Fin 110000 \<and>
   murabaha_equal_installments_schedule (Fin 100000) (Fin (1 / 10)) 0 = Inr [Fin 110000]"
proof -
  note t = murabaha_equal_installments_schedule_spec[of 12 "Fin 100000" "Fin (1 / 10)" 100000 "1 / 10"]
  have p: "(0 :: int) < 12"
    by simp
  from t[THEN conjunct2, THEN conjunct1, THEN mp, OF p] obtain inst where
    d: "py_truediv (fmul (Fin 100000) (fadd (Fin 1) (Fin (1 / 10)))) (float_of_int 12) = Inr inst"
    and s: "py_sum (replicate (nat 12) inst) = fmul (Fin 100000) (fadd (Fin 1) (Fin (1 / 10)))"
    by (elim exE conjE)
  from d have i: "inst = Fin (110000 / 12)"
    by (simp add: float_of_int_def)
  from t[THEN conjunct2, THEN conjunct2, THEN mp, OF p]
  have a: "murabaha_equal_installments_schedule (Fin 100000) (Fin (1 / 10)) 12
     = Inr (replicate 12 (Fin (110000 / 12)))"
    by simp
  from s have b: "py_sum (replicate 12 (Fin (110000 / 12))) = Fin 110000"
    unfolding i by simp
  from murabaha_equal_installments_schedule_spec[of 0 "Fin 100000" "Fin (1 / 10)" 100000 "1 / 10",
      THEN conjunct1]
  have c: "murabaha_equal_installments_schedule (Fin 100000) (Fin (1 / 10)) 0 = Inr [Fin 110000]"
    by simp
  from a b c show ?thesis
    by (intro conjI)
qed

subsection \<open>Weighted average life\<close>

lemma date_lt_trans: "date_lt a b \<Longrightarrow> date_lt b c \<Longrightarrow> date_lt a c"
  unfolding date_lt_def by presburger

lemma date_lt_cotrans: "\<not> date_lt x d \<Longrightarrow> \<not> date_lt d r \<Longrightarrow> \<not> date_lt x r"
  unfolding date_lt_def by presburger

lemma date_lt_irrefl: "\<not> date_lt a a"
  by (simp add: date_lt_def)

lemma foldl_min_date:
  "foldl (\<lambda>m x. if date_lt x m then x else m) d ds \<in> set (d # ds) \<and>
   (\<forall>x \<in> set (d # ds). \<not> date_lt x (foldl (\<lambda>m x. if date_lt x m then x else m) d ds))"
proof (induction ds arbitrary: d)
  case Nil
  show ?case by (simp add: date_lt_irrefl)
next
  case (Cons x xs)
  let ?f = "\<lambda>m x. if date_lt x m then x else m"
  let ?r = "foldl ?f (?f d x) xs"
  from Cons[of "?f d x"] have mem: "?r \<in> set (?f d x # xs)"
    and low: "\<forall>y \<in> set (?f d x # xs). \<not> date_lt y ?r"
    by blast+
  from low have l0: "\<not> date_lt (?f d x) ?r" by simp
  have ld: "\<not> date_lt d ?r"
  proof (cases "date_lt x d")
    case True
    with l0 have "\<not> date_lt x ?r" by simp
    with True show ?thesis using date_lt_trans by blast
  next
    case False
    with l0 show ?thesis by simp
  qed
  have lx: "\<not> date_lt x ?r"
  proof (cases "date_lt x d")
    case True
    with l0 show ?thesis by simp
  next
    case False
    with l0 have "\<not> date_lt d ?r" by simp
    with False show ?thesis by (rule date_lt_cotrans)
  qed
  from mem have "?r \<in> set (d # x # xs)" by (auto split: if_splits)
  with ld lx low show ?case by simp
qed

lemma py_min_date_earliest:
  "ds \<noteq> [] \<Longrightarrow> \<exists>t0. py_min_date ds = Inr t0 \<and> t0 \<in> set ds \<and> (\<forall>d \<in> set ds. \<not> date_lt d t0)"
  using foldl_min_date by (cases ds) auto

lemma wal_generators:
  "[p. (d, p) \<leftarrow> items] = map snd items"
  "[d. (d, p) \<leftarrow> items] = map fst items"
  by (induction items) auto

lemma weighted_average_life_general:
  "(items = [] \<longrightarrow> weighted_average_life items = Inr (Fin 0)) \<and>
   (fle (py_sum (map snd items)) (Fin 0) \<longrightarrow> weighted_average_life items = Inr (Fin 0)) \<and>
   (items \<noteq> [] \<and> \<not> fle (py_sum (map snd items)) (Fin 0) \<longrightarrow>
      (\<exists>t0 q. t0 \<in> fst ` set items \<and> (\<forall>d \<in> fst ` set items. \<not> date_lt d t0) \<and>
         py_truediv
           (py_sum (map (\<lambda>(d, p). fmul (Fin (of_int (toordinal d - toordinal t0) / 365.25)) p) items))
           (py_sum (map snd items)) = Inr q \<and>
         weighted_average_life items = Inr q))"
proof -
  have w: "weighted_average_life items =
     (if items = [] then Inr (Fin 0)
      else if fle (py_sum (map snd items)) (Fin 0) then Inr (Fin 0)
      else case py_min_date (map fst items) of
             Inl e \<Rightarrow> Inl e
           | Inr t0 \<Rightarrow>
               py_truediv (py_sum (map (\<lambda>(d, p). fmul (years_between t0 d) p) items))
                 (py_sum (map snd items)))"
    unfolding weighted_average_life_def wal_generators Let_def by (rule refl)
  have third: "\<exists>t0 q. t0 \<in> fst ` set items \<and> (\<forall>d \<in> fst ` set items. \<not> date_lt d t0) \<and>
         py_truediv
           (py_sum (map (\<lambda>(d, p). fmul (Fin (of_int (toordinal d - toordinal t0) / 365.25)) p) items))
           (py_sum (map snd items)) = Inr q \<and>
         weighted_average_life items = Inr q"
    if ne: "items \<noteq> []" and pos: "\<not> fle (py_sum (map snd items)) (Fin 0)"
  proof -
    from ne have "map fst items \<noteq> []" by simp
    from py_min_date_earliest[OF this] obtain t0 where
      m: "py_min_date (map fst items) = Inr t0" and i: "t0 \<in> fst ` set items"
      and e: "\<forall>d \<in> fst ` set items. \<not> date_lt d t0"
      by auto
    from guarded_truediv[OF pos] obtain q where
      q: "py_truediv
           (py_sum (map (\<lambda>(d, p). fmul (Fin (of_int (toordinal d - toordinal t0) / 365.25)) p) items))
           (py_sum (map snd items)) = Inr q"
      by blast
    have "weighted_average_life items = Inr q"
      using ne pos m q by (simp add: w years_between_def days_between_def)
    with i e q show ?thesis by blast
  qed
  have first: "items = [] \<longrightarrow> weighted_average_life items = Inr (Fin 0)"
    by (simp add: weighted_average_life_def)
  have second: "fle (py_sum (map snd items)) (Fin 0) \<longrightarrow> weighted_average_life items = Inr (Fin 0)"
    by (simp add: w)
  show ?thesis
    by (intro conjI impI, rule first[rule_format], assumption, rule second[rule_format],
        assumption, elim conjE, rule third)
qed


lemma py_truediv_Fin: "y \<noteq> 0 \<Longrightarrow> py_truediv (Fin x) (Fin y) = Inr (Fin (x / y))"
  by simp

lemma weighted_average_life_finite:
  assumes ne: "xs \<noteq> []" and pos: "0 < sum_list (map snd xs)"
  shows "\<exists>t0. t0 \<in> fst ` set xs \<and> (\<forall>d \<in> fst ` set xs. \<not> date_lt d t0) \<and>
     weighted_average_life (map (\<lambda>(d, p). (d, Fin p)) xs)
       = Inr (Fin ((\<Sum>(d, p) \<leftarrow> xs. of_int (toordinal d - toordinal t0) / 365.25 * p)
                    / sum_list (map snd xs)))"
proof -
  let ?items = "map (\<lambda>(d, p). (d, Fin p)) xs"
  have fst_items: "fst ` set ?items = fst ` set xs"
    by force
  have tot: "py_sum (map snd ?items) = Fin (sum_list (map snd xs))"
    using py_sum_Fin[of "map snd xs"] by (simp add: case_prod_unfold comp_def)
  have num: "py_sum (map (\<lambda>(d, p). fmul (Fin (of_int (toordinal d - toordinal t0) / 365.25)) p) ?items)
      = Fin (\<Sum>(d, p) \<leftarrow> xs. of_int (toordinal d - toordinal t0) / 365.25 * p)" for t0
    using py_sum_Fin[of "map (\<lambda>(d, p). of_int (toordinal d - toordinal t0) / 365.25 * p) xs"]
    by (simp add: case_prod_unfold comp_def)
  from ne have ne': "?items \<noteq> []" by simp
  have pos': "\<not> fle (py_sum (map snd ?items)) (Fin 0)"
    unfolding tot using pos by simp
  from ne' pos' have "?items \<noteq> [] \<and> \<not> fle (py_sum (map snd ?items)) (Fin 0)"
    by (rule conjI)
  with weighted_average_life_general[of ?items]
  obtain t0 q where i: "t0 \<in> fst ` set ?items" and e: "\<forall>d \<in> fst ` set ?items. \<not> date_lt d t0"
    and q: "py_truediv
           (py_sum (map (\<lambda>(d, p). fmul (Fin (of_int (toordinal d - toordinal t0) / 365.25)) p) ?items))
           (py_sum (map snd ?items)) = Inr q"
    and r: "weighted_average_life ?items = Inr q"
    by blast
  from pos have nz: "sum_list (map snd xs) \<noteq> 0"
    by simp
  from q[unfolded num tot] py_truediv_Fin[OF nz]
  have "q = Fin ((\<Sum>(d, p) \<leftarrow> xs. of_int (toordinal d - toordinal t0) / 365.25 * p)
                    / sum_list (map snd xs))"
    by (metis Inr_inject)
  with i e r show ?thesis
    unfolding fst_items by blast
qed

text \<open>
  Claim C6: \<open>weighted_average_life\<close> returns 0.0 on an empty schedule and when the
  total principal is \<open><= 0\<close>; otherwise it returns the sum of \<open>years * payment\<close>
  divided by the total principal, where \<open>years\<close> is the number of days from the
  earliest date of the schedule divided by 365.25, and the division never raises. On
  finite payments with a positive total this is the quotient of the real sums.
\<close>

theorem weighted_average_life_spec:
  "(items = [] \<longrightarrow> weighted_average_life items = Inr (Fin 0)) \<and>
   (fle (py_sum (map snd items)) (Fin 0) \<longrightarrow> weighted_average_life items = Inr (Fin 0)) \<and>
   (items \<noteq> [] \<and> \<not> fle (py_sum (map snd items)) (Fin 0) \<longrightarrow>
      (\<exists>t0 q. t0 \<in> fst ` set items \<and> (\<forall>d \<in> fst ` set items. \<not> date_lt d t0) \<and>
         py_truediv
           (py_sum (map (\<lambda>(d, p). fmul (Fin (of_int (toordinal d - toordinal t0) / 365.25)) p) items))
           (py_sum (map snd items)) = Inr q \<and>
         weighted_average_life items = Inr q)) \<and>
   (xs \<noteq> [] \<and> 0 < sum_list (map snd xs) \<longrightarrow>
      (\<exists>t0. t0 \<in> fst ` set xs \<and> (\<forall>d \<in> fst ` set xs. \<not> date_lt d t0) \<and>
         weighted_average_life (map (\<lambda>(d, p). (d, Fin p)) xs)
           = Inr (Fin ((\<Sum>(d, p) \<leftarrow> xs. of_int (toordinal d - toordinal t0) / 365.25 * p)
                        / sum_list (map snd xs)))))"
proof -
  have fin: "xs \<noteq> [] \<and> 0 < sum_list (map snd xs) \<longrightarrow>
      (\<exists>t0. t0 \<in> fst ` set xs \<and> (\<forall>d \<in> fst ` set xs. \<not> date_lt d t0) \<and>
         weighted_average_life (map (\<lambda>(d, p). (d, Fin p)) xs)
           = Inr (Fin ((\<Sum>(d, p) \<leftarrow> xs. of_int (toordinal d - toordinal t0) / 365.25 * p)
                        / sum_list (map snd xs))))"
    by (intro impI, elim conjE, rule weighted_average_life_finite)
  note g = weighted_average_life_general[of items]
  show ?thesis
    by (intro conjI) (rule g[THEN conjunct1], rule g[THEN conjunct2, THEN conjunct1],
        rule g[THEN conjunct2, THEN conjunct2], rule fin)
qed

theorem weighted_average_life_spec_witness:
  "weighted_average_life [(Date 2023 1 1, Fin 100), (Date 2024 1 1, Fin 100)]
     = Inr (Fin (36500 / 365.25 / 200)) \<and>
   weighted_average_life [] = Inr (Fin 0) \<and>
   weighted_average_life [(Date 2023 1 1, Fin 0)] = Inr (Fin 0)"
proof -
  let ?xs = "[(Date 2023 1 1, 100 :: real), (Date 2024 1 1, 100)]"
  have o: "toordinal (Date 2023 1 1) = 738521" "toordinal (Date 2024 1 1) = 738886"
    by (simp_all add: toordinal_def days_before_year_def days_before_month_def is_leap_def)
  have lt: "date_lt (Date 2023 1 1) (Date 2024 1 1)"
    by (simp add: date_lt_def)
  have pre: "?xs \<noteq> [] \<and> 0 < sum_list (map snd ?xs)"
    by simp
  from weighted_average_life_spec[of "[]" ?xs, THEN conjunct2, THEN conjunct2, THEN conjunct2,
      THEN mp, OF pre]
  obtain t0 where i: "t0 \<in> fst ` set ?xs" and e: "\<forall>d \<in> fst ` set ?xs. \<not> date_lt d t0"
    and r: "weighted_average_life (map (\<lambda>(d, p). (d, Fin p)) ?xs)
           = Inr (Fin ((\<Sum>(d, p) \<leftarrow> ?xs. of_int (toordinal d - toordinal t0) / 365.25 * p)
                        / sum_list (map snd ?xs)))"
    by (elim exE conjE)
  from i have "t0 = Date 2023 1 1 \<or> t0 = Date 2024 1 1"
    by simp
  moreover from e have "\<not> date_lt (Date 2023 1 1) t0"
    by simp
  ultimately have t: "t0 = Date 2023 1 1"
    using lt by blast
  have a: "weighted_average_life [(Date 2023 1 1, Fin 100), (Date 2024 1 1, Fin 100)]
     = Inr (Fin (36500 / 365.25 / 200))"
    using r unfolding t by (simp add: o)
  have b: "weighted_average_life [] = Inr (Fin 0)"
    using weighted_average_life_spec[of "[]" "[]", THEN conjunct1] by simp
  have "fle (py_sum (map snd [(Date 2023 1 1, Fin 0)])) (Fin 0)"
    by (simp add: py_sum_def)
  with weighted_average_life_spec[of "[(Date 2023 1 1, Fin 0)]" "[]", THEN conjunct2, THEN conjunct1]
  have c: "weighted_average_life [(Date 2023 1 1, Fin 0)] = Inr (Fin 0)"
    by (rule mp)
  show ?thesis
    using a b c by (intro conjI)
qed

subsection \<open>Risk parity weights\<close>

















text \<open>
  It fails on a tiny variance as well, where \<open>1.0 / v\<close> overflows: the inverse and the
  total are infinite and the weight is \<open>inf / inf\<close>, a NaN.
\<close>

lemma simple_risk_parity_weights_tiny_variance:
  "simple_risk_parity_weights [(''a'', Fin (1 / 10 ^ 309))] = Inr [(''a'', NaN)]"
  by (simp add: simple_risk_parity_weights_def py_sum_ovf_def dict_getitem_def
      fin_or_inf_def float_overflow_def)



subsection \<open>Report assembler\<close>

lemma report_steps_never_raise:
  "ltv x y \<noteq> Inl e" "value_from_cap x y \<noteq> Inl e" "occupancy_rate us ls \<noteq> Inl e"
  "kwh_per_m2_day_from_series u vals \<noteq> Inl e"
proof -
  show "ltv x y \<noteq> Inl e" "value_from_cap x y \<noteq> Inl e"
    by (rule guarded_ratios_never_raise)+
  show "occupancy_rate us ls \<noteq> Inl e"
    by (simp add: occupancy_rate_def Let_def py_int_truediv_def)
  show "kwh_per_m2_day_from_series u vals \<noteq> Inl e"
  proof (cases "fle (nla_m2 u) (Fin 0) \<or> vals = []")
    case True
    then show ?thesis
      by (auto simp: kwh_per_m2_day_from_series_def)
  next
    case False
    then have nz: "float_of_int (int (length vals)) \<noteq> Fin 0" and g: "\<not> fle (nla_m2 u) (Fin 0)"
      by (simp_all add: float_of_int_def)
    from py_truediv_no_raise[OF nz] obtain mean where
      m: "py_truediv (py_sum vals) (float_of_int (int (length vals))) = Inr mean"
      by blast
    from guarded_truediv[OF g] obtain q where "py_truediv mean (nla_m2 u) = Inr q"
      by blast
    with False m show ?thesis
      by (simp add: kwh_per_m2_day_from_series_def)
  qed
qed

lemma main_valuation:
  assumes "fetch_unit_core db (arg_unit_id a) = Inr (u, b, p)"
  shows "case main db today a of
           Inl e \<Rightarrow> False
         | Inr out \<Rightarrow>
             value_from_cap (noi (rent_roll_total (fetch_active_leases db (u_id u))) (Fin 0) (Fin 0))
               (assumed_cap_rate a) = Inr (out_implied_value (out_valuation out)) \<and>
             out_assumed_cap_rate (out_valuation out) = assumed_cap_rate a \<and>
             out_noi_annual (out_valuation out)
               = noi (rent_roll_total (fetch_active_leases db (u_id u))) (Fin 0) (Fin 0) \<and>
             out_ltv_from_input_balance (out_valuation out)
               = (if fgt (loan_balance a) (Fin 0)
                  then (case ltv (loan_balance a) (out_implied_value (out_valuation out)) of
                          Inl e \<Rightarrow> None
                        | Inr x \<Rightarrow> Some x)
                  else None)"
  using assms
  by (auto simp: main_def Let_def report_steps_never_raise split: sum.splits)

lemma main_not_found:
  "fetch_unit_core db (arg_unit_id a) = Inl e \<Longrightarrow> main db today a = Inl e"
  by (simp add: main_def)

text \<open>
  Claim C9: in a run of the report assembler (the unit being found), the field
  \<open>ltv_from_input_balance\<close> is null exactly when the loan balance is not \<open>> 0\<close>,
  and otherwise it is \<open>ltv(loan_balance, implied_value)\<close>, which does not raise.
\<close>

theorem main_ltv_from_input_balance:
  assumes "fetch_unit_core db (arg_unit_id a) = Inr (u, b, p)"
  shows "\<exists>out. main db today a = Inr out \<and>
     ((out_ltv_from_input_balance (out_valuation out) = None)
        = (\<not> fgt (loan_balance a) (Fin 0))) \<and>
     (fgt (loan_balance a) (Fin 0) \<longrightarrow>
        (\<exists>x. ltv (loan_balance a) (out_implied_value (out_valuation out)) = Inr x \<and>
           out_ltv_from_input_balance (out_valuation out) = Some x))"
proof -
  from main_valuation[OF assms, of today] obtain out where
    m: "main db today a = Inr out" and
    l: "out_ltv_from_input_balance (out_valuation out)
          = (if fgt (loan_balance a) (Fin 0)
             then (case ltv (loan_balance a) (out_implied_value (out_valuation out)) of
                     Inl e \<Rightarrow> None
                   | Inr x \<Rightarrow> Some x)
             else None)"
    by (cases "main db today a") auto
  obtain x where x: "ltv (loan_balance a) (out_implied_value (out_valuation out)) = Inr x"
    using report_steps_never_raise(1) by (cases "ltv (loan_balance a) (out_implied_value (out_valuation out))") auto
  from m l x show ?thesis
    by auto
qed

theorem main_ltv_from_input_balance_witness:
  "(\<exists>out. main example_db (Date 2026 11 3) example_args = Inr out \<and>
      out_ltv_from_input_balance (out_valuation out) \<noteq> None) \<and>
   (\<exists>out. main example_db (Date 2026 11 3) (example_args\<lparr>loan_balance := Fin 0\<rparr>) = Inr out \<and>
      out_ltv_from_input_balance (out_valuation out) = None)"
proof -
  let ?a0 = "example_args\<lparr>loan_balance := Fin 0\<rparr>"
  have h1: "fetch_unit_core example_db (arg_unit_id example_args) = Inr (unit_a, building_a, parcel_a)"
    by (simp add: example_db_def example_args_def)
  have h0: "fetch_unit_core example_db (arg_unit_id ?a0) = Inr (unit_a, building_a, parcel_a)"
    by (simp add: example_db_def example_args_def)
  have p: "fgt (loan_balance example_args) (Fin 0)"
    by (simp add: example_args_def fgt_def)
  have z: "\<not> fgt (loan_balance ?a0) (Fin 0)"
    by (simp add: fgt_def)
  from main_ltv_from_input_balance[OF h1, of "Date 2026 11 3"] p
  have a: "\<exists>out. main example_db (Date 2026 11 3) example_args = Inr out \<and>
      out_ltv_from_input_balance (out_valuation out) \<noteq> None"
    by blast
  from main_ltv_from_input_balance[OF h0, of "Date 2026 11 3"] z
  have b: "\<exists>out. main example_db (Date 2026 11 3) ?a0 = Inr out \<and>
      out_ltv_from_input_balance (out_valuation out) = None"
    by blast
  from a b show ?thesis
    by (rule conjI)
qed

text \<open>
  Claim C1: in a run over a unit whose only active lease has a monthly rent of 5000,
  with other income and opex passed as zero and an assumed cap rate of 0.06, the
  annual NOI is 60000 and the implied value is 1,000,000; with a loan balance of
  400,000 the LTV is 0.4.
\<close>

theorem main_end_to_end:
  assumes "fetch_unit_core db (arg_unit_id a) = Inr (u, b, p)"
    and "fetch_active_leases db (u_id u) = [l]"
    and "status l = ''active''"
    and "rent_monthly l = Fin 5000"
    and "assumed_cap_rate a = Fin (6 / 100)"
  shows "\<exists>out. main db today a = Inr out \<and>
     out_noi_annual (out_valuation out) = Fin 60000 \<and>
     out_implied_value (out_valuation out) = Fin 1000000 \<and>
     (loan_balance a = Fin 400000 \<longrightarrow>
        out_ltv_from_input_balance (out_valuation out) = Some (Fin (4 / 10)))"
proof -
  have rr: "rent_roll_total [l] = Fin 5000"
    using assms(3,4) by (simp add: rent_roll_total_def py_sum_def)
  have n: "noi (Fin 5000) (Fin 0) (Fin 0) = Fin 60000"
    by (simp add: noi_def fsub_def)
  from main_valuation[OF assms(1), of today] obtain out where
    m: "main db today a = Inr out" and
    v: "value_from_cap (Fin 60000) (Fin (6 / 100)) = Inr (out_implied_value (out_valuation out))" and
    ni: "out_noi_annual (out_valuation out) = Fin 60000" and
    l: "out_ltv_from_input_balance (out_valuation out)
          = (if fgt (loan_balance a) (Fin 0)
             then (case ltv (loan_balance a) (out_implied_value (out_valuation out)) of
                     Inl e \<Rightarrow> None
                   | Inr x \<Rightarrow> Some x)
             else None)"
    by (cases "main db today a") (auto simp: assms(2,5) rr n)
  from v have iv: "out_implied_value (out_valuation out) = Fin 1000000"
    by (simp add: value_from_cap_def)
  have "out_ltv_from_input_balance (out_valuation out) = Some (Fin (4 / 10))"
    if "loan_balance a = Fin 400000"
    unfolding l iv that by (simp add: fgt_def ltv_def)
  with m ni iv show ?thesis
    by blast
qed

theorem main_end_to_end_witness:
  "\<exists>out. main example_db (Date 2026 11 3) example_args = Inr out \<and>
     out_noi_annual (out_valuation out) = Fin 60000 \<and>
     out_implied_value (out_valuation out) = Fin 1000000 \<and>
     out_ltv_from_input_balance (out_valuation out) = Some (Fin (4 / 10))"
proof -
  have h1: "fetch_unit_core example_db (arg_unit_id example_args) = Inr (unit_a, building_a, parcel_a)"
    by (simp add: example_db_def example_args_def)
  have h2: "fetch_active_leases example_db (u_id unit_a) = [lease_5000]"
    by (simp add: example_db_def unit_a_def)
  have h3: "status lease_5000 = ''active''" and h4: "rent_monthly lease_5000 = Fin 5000"
    by (simp_all add: lease_5000_def)
  have h5: "assumed_cap_rate example_args = Fin (6 / 100)"
    and h6: "loan_balance example_args = Fin 400000"
    by (simp_all add: example_args_def)
  from main_end_to_end[OF h1 h2 h3 h4 h5, of "Date 2026 11 3"] h6 show ?thesis
    by blast
qed

end
